theory Spec2Isabelle
  imports Main
begin

section \<open>Configuration: the command-line flags of cli.go\<close>

text \<open>
  The package-level flag variables (\<open>*sicashRPC\<close>, \<open>*ethRPC\<close>, ...) are read-only after
  \<open>app.Parse\<close>; they are gathered in one record that every operation receives.
\<close>

record config =
  sicashRPC :: string
  sicashSenderAddress :: string
  ethRPC :: string
  solarEnv :: string
  solarRepo :: string
  solcOptimize :: bool
  solcAllowPaths :: string

datatype RPCPlatform = RPCSICash | RPCEthereum

section \<open>Ways in which a call does not return\<close>

text \<open>
  \<open>Fatalln e\<close>: \<open>log.Fatalln(err)\<close>, the error text is logged and the process exits with
  status 1. \<open>Fatalf fmt arg\<close>: \<open>log.Fatalf(fmt, arg)\<close>, likewise, kept as the format string
  and its argument. \<open>PrintfExit msg n\<close>: \<open>fmt.Printf\<close> of \<open>msg\<close> followed by
  \<open>os.Exit(n)\<close>. \<open>Panic msg\<close>: \<open>panic(errors.Errorf(...))\<close> with the error text \<open>msg\<close>.
\<close>

datatype halt =
    Fatalln string
  | Fatalf string string
  | PrintfExit string nat
  | Panic string

definition errorUnspecifiedRPC :: string where
  "errorUnspecifiedRPC =
     ''Please specify RPC url by setting SICASH_RPC or ETH_RPC or using flag --sicash_rpc or --eth_rpc''"

section \<open>Collaborators outside cli.go\<close>

text \<open>
  Go functions returning \<open>(value, error)\<close> are pairs; a pointer or interface value that may
  be \<open>nil\<close> is an option, and so is an \<open>error\<close> (its text). Calls that touch the file
  system, the network or the process take the outside world \<open>'w\<close> and return it changed,
  so two calls with equal arguments need not return equal results.
  \<open>repo_Get\<close> is \<open>repo.Get(key)\<close>, returning the contract and the \<open>found\<close> flag.
  \<open>Address_String\<close> is \<open>contract.Address.String()\<close>, which reads the process-wide
  with-prefix toggle. \<open>varstr_ident\<close> is the set of characters an identifier of a
  placeholder is made of.
\<close>

record ('w, 'u, 'r, 'd, 'c) extern =
  url_ParseRequestURI :: "string \<Rightarrow> 'u option \<times> string option"
  contract_OpenContractsRepository :: "string \<Rightarrow> 'w \<Rightarrow> ('r option \<times> string option) \<times> 'w"
  sicash_NewDeployer ::
    "'u option \<Rightarrow> 'r option \<Rightarrow> string \<Rightarrow> 'w \<Rightarrow> ('d option \<times> string option) \<times> 'w"
  eth_NewDeployer :: "'u option \<Rightarrow> 'r option \<Rightarrow> 'w \<Rightarrow> ('d option \<times> string option) \<times> 'w"
  os_Getwd :: "'w \<Rightarrow> string \<times> string option"
  repo_Get :: "'w \<Rightarrow> 'r option \<Rightarrow> string \<Rightarrow> 'c \<times> bool"
  Address_String :: "bool \<Rightarrow> 'c \<Rightarrow> string"
  varstr_ident :: "char \<Rightarrow> bool"

section \<open>The process context\<close>

text \<open>
  A Go channel as far as a sender sees it: its capacity (the second argument of \<open>make\<close>,
  0 when absent) and the number of values waiting in its buffer.
\<close>

record chan =
  cap :: nat
  buffered :: nat

definition make_chan :: "nat \<Rightarrow> chan" where
  "make_chan n = \<lparr>cap = n, buffered = 0\<rparr>"

datatype send_outcome = Sent | Blocked

text \<open>
  A send statement \<open>ch <- v\<close>: it proceeds when a receiver is already waiting on the
  channel or the buffer has room, and blocks the sender otherwise.
\<close>

definition chan_send :: "chan \<Rightarrow> bool \<Rightarrow> send_outcome \<times> chan" where
  "chan_send ch receiver_waiting =
     (if receiver_waiting then (Sent, ch)
      else if buffered ch < cap ch then (Sent, ch\<lparr>buffered := Suc (buffered ch)\<rparr>)
      else (Blocked, ch))"

text \<open>The struct literal \<open>&events{in: make(chan interface{})}\<close> sets the one field \<open>in\<close>.\<close>

record events =
  in_chan :: chan

record ('r, 'd) solarCLI =
  depoyer :: "'d option"
  deployerOnce :: bool
  repo :: "'r option"
  repoOnce :: bool
  reporter :: "events option"
  reporterOnce :: bool

text \<open>\<open>var solar = &solarCLI{}\<close>: every field has its zero value.\<close>

definition solar0 :: "('r, 'd) solarCLI" where
  "solar0 = \<lparr>depoyer = None, deployerOnce = False, repo = None, repoOnce = False,
              reporter = None, reporterOnce = False\<rparr>"

text \<open>The calls to collaborators that an operation performs, in order.\<close>

datatype call =
    Call_OpenContractsRepository string
  | Call_sicash_NewDeployer string
  | Call_eth_NewDeployer
  | Call_SetFormatBytesWithPrefix bool
  | Go_reporter_Start

record ('w, 'r, 'd) process =
  solar :: "('r, 'd) solarCLI"
  formatBytesWithPrefix :: bool
  world :: 'w
  trace :: "call list"

section \<open>RPCPlatform\<close>

definition RPCPlatform :: "config \<Rightarrow> halt + RPCPlatform" where
  "RPCPlatform cfg =
     (if sicashRPC cfg = [] \<and> ethRPC cfg = [] then Inl (Fatalln errorUnspecifiedRPC)
      else if sicashRPC cfg \<noteq> [] then Inr RPCSICash
      else Inr RPCEthereum)"

section \<open>Reporter\<close>

definition Reporter :: "('w, 'r, 'd) process \<Rightarrow> events option \<times> ('w, 'r, 'd) process" where
  "Reporter p =
     (if reporterOnce (solar p) then (reporter (solar p), p)
      else
        let p1 = p\<lparr>solar := (solar p)\<lparr>reporter := Some \<lparr>in_chan = make_chan 0\<rparr>\<rparr>\<rparr>;
            p2 = p1\<lparr>trace := trace p1 @ [Go_reporter_Start]\<rparr>;
            p3 = p2\<lparr>solar := (solar p2)\<lparr>reporterOnce := True\<rparr>\<rparr>
        in (reporter (solar p3), p3))"

section \<open>SolcOptions\<close>

record CompilerOptions =
  NoOptimize :: bool
  AllowPaths :: "string list"

text \<open>
  \<open>strings.Split(s, sep)\<close> for a one-character separator: the pieces of \<open>s\<close> between the
  separators, one piece more than there are separators (so \<open>[s]\<close> when there is none).
\<close>

primrec strings_Split :: "string \<Rightarrow> char \<Rightarrow> string list" where
  "strings_Split [] sep = [[]]"
| "strings_Split (c # cs) sep =
     (if c = sep then [] # strings_Split cs sep
      else (case strings_Split cs sep of
              [] \<Rightarrow> [[c]]
            | piece # pieces \<Rightarrow> (c # piece) # pieces))"

text \<open>\<open>errors.Wrap(err, msg)\<close>: an error whose text is \<open>msg\<close>, a colon and the cause.\<close>

definition errors_Wrap :: "string \<Rightarrow> string \<Rightarrow> string" where
  "errors_Wrap err msg = msg @ '': '' @ err"

definition SolcOptions ::
  "config \<Rightarrow> ('w, 'u, 'r, 'd, 'c) extern \<Rightarrow> 'w \<Rightarrow> string + CompilerOptions" where
  "SolcOptions cfg ext w =
     (let allowPathsStr = solcAllowPaths cfg in
      if allowPathsStr = [] then
        (case os_Getwd ext w of
           (cwd, Some err) \<Rightarrow> Inl (errors_Wrap err ''solc options'')
         | (cwd, None) \<Rightarrow>
             Inr \<lparr>NoOptimize = \<not> solcOptimize cfg,
                  AllowPaths = strings_Split cwd (CHR '','')\<rparr>)
      else
        Inr \<lparr>NoOptimize = \<not> solcOptimize cfg,
             AllowPaths = strings_Split allowPathsStr (CHR '','')\<rparr>)"

section \<open>ContractsRepository\<close>

text \<open>The local variable \<open>repoFilePath\<close> of \<open>ContractsRepository\<close>.\<close>

definition repoFilePath :: "config \<Rightarrow> string" where
  "repoFilePath cfg =
     (if solarRepo cfg \<noteq> [] then solarRepo cfg
      else ''solar.'' @ solarEnv cfg @ ''.json'')"

definition ContractsRepository ::
  "config \<Rightarrow> ('w, 'u, 'r, 'd, 'c) extern \<Rightarrow> ('w, 'r, 'd) process
     \<Rightarrow> (halt + 'r option) \<times> ('w, 'r, 'd) process" where
  "ContractsRepository cfg ext p =
     (if repoOnce (solar p) then (Inr (repo (solar p)), p)
      else
        (case contract_OpenContractsRepository ext (repoFilePath cfg) (world p) of
           ((r, err), w') \<Rightarrow>
             let p1 = p\<lparr>world := w',
                        trace := trace p @ [Call_OpenContractsRepository (repoFilePath cfg)]\<rparr>
             in (case err of
                   Some e \<Rightarrow>
                     (Inl (PrintfExit
                        (''error opening contracts repo file '' @ repoFilePath cfg @ '': '' @ e
                           @ [CHR 0x0A]) 1), p1)
                 | None \<Rightarrow>
                     let p2 = p1\<lparr>solar := (solar p1)\<lparr>repo := r, repoOnce := True\<rparr>\<rparr>
                     in (Inr (repo (solar p2)), p2))))"

section \<open>ExpandJSONParams\<close>

datatype segment = Text string | Placeholder string

text \<open>
  Modelled from the spec: the scanner of \<open>varstr.Expand\<close>, which is not part of cli.go.
  A placeholder is a sigil-prefixed identifier, bare (\<open>$Name\<close>) or wrapped in delimiters
  (\<open>${Name}\<close>); every other character is text and passes through unchanged. The scan is
  one pass from left to right.
\<close>

function scan :: "(char \<Rightarrow> bool) \<Rightarrow> string \<Rightarrow> segment list" where
  "scan ident [] = []"
| "scan ident (c # cs) =
     (if c = CHR ''$'' then
        (case cs of
           [] \<Rightarrow> [Text [c]]
         | d # ds \<Rightarrow>
             if d = CHR ''{'' then
               (if takeWhile ident ds \<noteq> [] \<and> dropWhile ident ds \<noteq> []
                   \<and> hd (dropWhile ident ds) = CHR ''}''
                then Placeholder (takeWhile ident ds) # scan ident (tl (dropWhile ident ds))
                else Text [c] # scan ident cs)
             else
               (if takeWhile ident cs \<noteq> []
                then Placeholder (takeWhile ident cs) # scan ident (dropWhile ident cs)
                else Text [c] # scan ident cs))
      else Text [c] # scan ident cs)"
  by pat_completeness auto
termination
  apply (relation "measure (\<lambda>(ident, s). length s)")
      apply simp_all
   apply (metis length_dropWhile_le diff_le_self le_trans less_Suc_eq_le less_SucI)
  apply (clarsimp, rule less_SucI, rule le_imp_less_Suc, rule length_dropWhile_le)
  done

text \<open>
  Modelled from the spec: the substitution of \<open>varstr.Expand\<close>. For each placeholder, in
  order, the mapping is called with the identifier; when the mapping panics the expansion
  is abandoned at once, otherwise what it returns replaces the placeholder and the scan
  goes on with the remainder. What is substituted is not scanned again.
\<close>

primrec expand_segments :: "(string \<Rightarrow> halt + string) \<Rightarrow> segment list \<Rightarrow> halt + string" where
  "expand_segments mapping [] = Inr []"
| "expand_segments mapping (seg # segs) =
     (case seg of
        Text t \<Rightarrow>
          (case expand_segments mapping segs of
             Inl h \<Rightarrow> Inl h
           | Inr rest \<Rightarrow> Inr (t @ rest))
      | Placeholder key \<Rightarrow>
          (case mapping key of
             Inl h \<Rightarrow> Inl h
           | Inr v \<Rightarrow>
               (case expand_segments mapping segs of
                  Inl h \<Rightarrow> Inl h
                | Inr rest \<Rightarrow> Inr (v @ rest))))"

definition varstr_Expand ::
  "(char \<Rightarrow> bool) \<Rightarrow> string \<Rightarrow> (string \<Rightarrow> halt + string) \<Rightarrow> halt + string" where
  "varstr_Expand ident s mapping = expand_segments mapping (scan ident s)"

text \<open>The function literal that \<open>ExpandJSONParams\<close> passes to \<open>varstr.Expand\<close>.\<close>

definition expand_key ::
  "('w, 'u, 'r, 'd, 'c) extern \<Rightarrow> ('w, 'r, 'd) process \<Rightarrow> 'r option \<Rightarrow> string \<Rightarrow> halt + string" where
  "expand_key ext p r key =
     (case repo_Get ext (world p) r key of
        (contract, found) \<Rightarrow>
          if \<not> found then Inl (Panic (''Invalid address expansion: '' @ key))
          else Inr (Address_String ext (formatBytesWithPrefix p) contract))"

definition ExpandJSONParams ::
  "config \<Rightarrow> ('w, 'u, 'r, 'd, 'c) extern \<Rightarrow> string \<Rightarrow> ('w, 'r, 'd) process
     \<Rightarrow> (halt + string) \<times> ('w, 'r, 'd) process" where
  "ExpandJSONParams cfg ext jsonParams p =
     (case ContractsRepository cfg ext p of
        (Inl h, p1) \<Rightarrow> (Inl h, p1)
      | (Inr r, p1) \<Rightarrow>
          (varstr_Expand (varstr_ident ext) jsonParams (expand_key ext p1 r), p1))"

section \<open>ConfigureBytesOutputFormat\<close>

text \<open>
  Modelled from the spec: \<open>contract.SetFormatBytesWithPrefix\<close>, which is not part of
  cli.go, sets the process-wide toggle that every later address-to-string conversion reads.
\<close>

definition contract_SetFormatBytesWithPrefix ::
  "bool \<Rightarrow> ('w, 'r, 'd) process \<Rightarrow> ('w, 'r, 'd) process" where
  "contract_SetFormatBytesWithPrefix b p =
     p\<lparr>formatBytesWithPrefix := b, trace := trace p @ [Call_SetFormatBytesWithPrefix b]\<rparr>"

definition ConfigureBytesOutputFormat ::
  "config \<Rightarrow> ('w, 'r, 'd) process \<Rightarrow> ('w, 'r, 'd) process" where
  "ConfigureBytesOutputFormat cfg p =
     (if ethRPC cfg \<noteq> [] then contract_SetFormatBytesWithPrefix True p else p)"

section \<open>Deployer\<close>

text \<open>
  The body of \<open>Deployer\<close> is three parts in sequence, over its local variables
  \<open>deployer\<close> and \<open>err\<close> (both \<open>nil\<close> at the start): the block guarded by
  \<open>*sicashRPC != ""\<close>, the block guarded by \<open>*ethRPC != ""\<close>, and the two final checks.
  The arguments of \<open>NewDeployer\<close> are evaluated from left to right, so
  \<open>c.ContractsRepository()\<close> runs before the constructor is called.
\<close>

definition Deployer_sicash ::
  "config \<Rightarrow> ('w, 'u, 'r, 'd, 'c) extern \<Rightarrow> 'd option \<times> string option \<Rightarrow> ('w, 'r, 'd) process
     \<Rightarrow> (halt + 'd option \<times> string option) \<times> ('w, 'r, 'd) process" where
  "Deployer_sicash cfg ext locals p =
     (let rawurl = sicashRPC cfg in
      if rawurl \<noteq> [] then
        (case url_ParseRequestURI ext rawurl of
           (rpcURL, Some e) \<Rightarrow> (Inl (Fatalf ''Invalid RPC url: %#v'' rawurl), p)
         | (rpcURL, None) \<Rightarrow>
             (case ContractsRepository cfg ext p of
                (Inl h, p1) \<Rightarrow> (Inl h, p1)
              | (Inr r, p1) \<Rightarrow>
                  (case sicash_NewDeployer ext rpcURL r (sicashSenderAddress cfg) (world p1) of
                     (res, w') \<Rightarrow>
                       (Inr res,
                        p1\<lparr>world := w',
                           trace := trace p1
                             @ [Call_sicash_NewDeployer (sicashSenderAddress cfg)]\<rparr>))))
      else (Inr locals, p))"

definition Deployer_eth ::
  "config \<Rightarrow> ('w, 'u, 'r, 'd, 'c) extern \<Rightarrow> 'd option \<times> string option \<Rightarrow> ('w, 'r, 'd) process
     \<Rightarrow> (halt + 'd option \<times> string option) \<times> ('w, 'r, 'd) process" where
  "Deployer_eth cfg ext locals p =
     (let rawurl = ethRPC cfg in
      if rawurl \<noteq> [] then
        (case url_ParseRequestURI ext rawurl of
           (rpcURL, Some e) \<Rightarrow> (Inl (Fatalf ''Invalid RPC url: %#v'' rawurl), p)
         | (rpcURL, None) \<Rightarrow>
             (case ContractsRepository cfg ext p of
                (Inl h, p1) \<Rightarrow> (Inl h, p1)
              | (Inr r, p1) \<Rightarrow>
                  (case eth_NewDeployer ext rpcURL r (world p1) of
                     (res, w') \<Rightarrow>
                       (Inr res,
                        p1\<lparr>world := w', trace := trace p1 @ [Call_eth_NewDeployer]\<rparr>))))
      else (Inr locals, p))"

definition Deployer_checks :: "'d option \<times> string option \<Rightarrow> halt + 'd option" where
  "Deployer_checks locals =
     (case locals of
        (None, err) \<Rightarrow> Inl (Fatalln errorUnspecifiedRPC)
      | (Some d, Some e) \<Rightarrow> Inl (Fatalf ''NewDeployer error %v'' e)
      | (Some d, None) \<Rightarrow> Inr (Some d))"

definition Deployer ::
  "config \<Rightarrow> ('w, 'u, 'r, 'd, 'c) extern \<Rightarrow> ('w, 'r, 'd) process
     \<Rightarrow> (halt + 'd option) \<times> ('w, 'r, 'd) process" where
  "Deployer cfg ext p =
     (case Deployer_sicash cfg ext (None, None) p of
        (Inl h, p1) \<Rightarrow> (Inl h, p1)
      | (Inr locals1, p1) \<Rightarrow>
          (case Deployer_eth cfg ext locals1 p1 of
             (Inl h, p2) \<Rightarrow> (Inl h, p2)
           | (Inr locals2, p2) \<Rightarrow> (Deployer_checks locals2, p2)))"

section \<open>What an expansion is expected to produce\<close>

text \<open>The identifiers of the placeholders of a scanned template, from left to right.\<close>

primrec placeholders :: "segment list \<Rightarrow> string list" where
  "placeholders [] = []"
| "placeholders (seg # segs) =
     (case seg of
        Text t \<Rightarrow> placeholders segs
      | Placeholder key \<Rightarrow> key # placeholders segs)"

text \<open>
  A template with every placeholder replaced by the address of the contract the repository
  holds under that name, rendered as a string; text is kept as it is.
\<close>

primrec substituted ::
  "('w, 'u, 'r, 'd, 'c) extern \<Rightarrow> ('w, 'r, 'd) process \<Rightarrow> 'r option \<Rightarrow> segment list \<Rightarrow> string" where
  "substituted ext p r [] = []"
| "substituted ext p r (seg # segs) =
     (case seg of
        Text t \<Rightarrow> t
      | Placeholder key \<Rightarrow>
          Address_String ext (formatBytesWithPrefix p) (fst (repo_Get ext (world p) r key)))
     @ substituted ext p r segs"

section \<open>A concrete process to run the operations on\<close>

text \<open>
  The outside world is a counter of the objects created so far: opening the repository
  and constructing a deployer each create a new object, numbered by the counter. The
  repository holds one contract, \<open>Token\<close>, at address \<open>ABC\<close>.
\<close>

datatype demo_deployer = SICashDeployer nat | EthDeployer nat

definition demo_ident :: "char \<Rightarrow> bool" where
  "demo_ident c =
     (c \<in> set ''abcdefghijklmnopqrstuvwxyzABCDEFGHIJKLMNOPQRSTUVWXYZ0123456789_'')"

definition demo_ext :: "(nat, string, nat, demo_deployer, string) extern" where
  "demo_ext =
     \<lparr>url_ParseRequestURI =
        (\<lambda>s. if take 7 s = ''http://'' then (Some s, None)
             else (None, Some ''invalid URI for request'')),
      contract_OpenContractsRepository = (\<lambda>path w. ((Some w, None), Suc w)),
      sicash_NewDeployer = (\<lambda>u r sender w. ((Some (SICashDeployer w), None), Suc w)),
      eth_NewDeployer = (\<lambda>u r w. ((Some (EthDeployer w), None), Suc w)),
      os_Getwd = (\<lambda>w. (''/home/solar'', None)),
      repo_Get = (\<lambda>w r key. if key = ''Token'' then (''ABC'', True) else ([], False)),
      Address_String = (\<lambda>withPrefix c. if withPrefix then ''0x'' @ c else c),
      varstr_ident = demo_ident\<rparr>"

text \<open>The flags at their defaults: no endpoint, environment \<open>development\<close>, optimizer on.\<close>

definition demo_config :: config where
  "demo_config =
     \<lparr>sicashRPC = [], sicashSenderAddress = [], ethRPC = [], solarEnv = ''development'',
      solarRepo = [], solcOptimize = True, solcAllowPaths = []\<rparr>"

definition demo_process :: "(nat, nat, demo_deployer) process" where
  "demo_process = \<lparr>solar = solar0, formatBytesWithPrefix = False, world = 0, trace = []\<rparr>"

section \<open>Platform selection\<close>

text \<open>
  C3: for every configuration in which both endpoint settings are empty, both
  \<open>RPCPlatform\<close> and \<open>Deployer\<close> end in \<open>log.Fatalln(errorUnspecifiedRPC)\<close>: neither
  returns a platform selector or a deployer, and \<open>Deployer\<close> leaves the process as it was.
\<close>

theorem unspecified_endpoint_is_fatal:
  assumes "sicashRPC cfg = []" and "ethRPC cfg = []"
  shows "RPCPlatform cfg = Inl (Fatalln errorUnspecifiedRPC)
       \<and> Deployer cfg ext p = (Inl (Fatalln errorUnspecifiedRPC), p)"
  using assms
  by (simp add: RPCPlatform_def Deployer_def Deployer_sicash_def Deployer_eth_def
      Deployer_checks_def)

theorem unspecified_endpoint_is_fatal_witness:
  "RPCPlatform demo_config = Inl (Fatalln errorUnspecifiedRPC)
   \<and> Deployer demo_config demo_ext demo_process
       = (Inl (Fatalln errorUnspecifiedRPC), demo_process)"
  using unspecified_endpoint_is_fatal [of demo_config demo_ext demo_process]
  by (simp add: demo_config_def)

text \<open>
  C4: whenever the sicash endpoint is non-empty, \<open>RPCPlatform\<close> returns \<open>RPCSICash\<close>,
  whatever the eth endpoint is; when only the eth endpoint is non-empty it returns
  \<open>RPCEthereum\<close>.
\<close>

theorem RPCPlatform_selection:
  "(sicashRPC cfg \<noteq> [] \<longrightarrow> RPCPlatform cfg = Inr RPCSICash)
   \<and> (sicashRPC cfg = [] \<and> ethRPC cfg \<noteq> [] \<longrightarrow> RPCPlatform cfg = Inr RPCEthereum)"
  by (simp add: RPCPlatform_def)

theorem RPCPlatform_selection_witness:
  "RPCPlatform (demo_config\<lparr>sicashRPC := ''http://a:1''\<rparr>) = Inr RPCSICash
   \<and> RPCPlatform (demo_config\<lparr>sicashRPC := ''http://a:1'', ethRPC := ''http://b:2''\<rparr>)
       = Inr RPCSICash
   \<and> RPCPlatform (demo_config\<lparr>ethRPC := ''http://b:2''\<rparr>) = Inr RPCEthereum"
  using RPCPlatform_selection [of "demo_config\<lparr>sicashRPC := ''http://a:1''\<rparr>"]
    RPCPlatform_selection [of "demo_config\<lparr>sicashRPC := ''http://a:1'', ethRPC := ''http://b:2''\<rparr>"]
    RPCPlatform_selection [of "demo_config\<lparr>ethRPC := ''http://b:2''\<rparr>"]
  by (simp add: demo_config_def)

section \<open>The contracts repository\<close>

text \<open>
  C5: \<open>ContractsRepository\<close> resolves the path of the repository file to the override
  \<open>*solarRepo\<close> when that is non-empty, whatever the environment name, and to
  \<open>solar.<env>.json\<close> otherwise. The call that finds the once-guard unused opens exactly
  that path and returns what the open returned (or exits when the open failed); a call
  that finds the guard used opens nothing.
\<close>

theorem ContractsRepository_path:
  "(solarRepo cfg \<noteq> [] \<longrightarrow> repoFilePath cfg = solarRepo cfg)
   \<and> (solarRepo cfg = [] \<longrightarrow> repoFilePath cfg = ''solar.'' @ solarEnv cfg @ ''.json'')
   \<and> trace (snd (ContractsRepository cfg ext p))
       = trace p @ (if repoOnce (solar p) then []
                    else [Call_OpenContractsRepository (repoFilePath cfg)])
   \<and> (\<not> repoOnce (solar p) \<longrightarrow>
        fst (ContractsRepository cfg ext p)
          = (case contract_OpenContractsRepository ext (repoFilePath cfg) (world p) of
               ((r, None), w') \<Rightarrow> Inr r
             | ((r, Some e), w') \<Rightarrow>
                 Inl (PrintfExit (''error opening contracts repo file '' @ repoFilePath cfg
                        @ '': '' @ e @ [CHR 0x0A]) 1)))"
  by (simp add: ContractsRepository_def repoFilePath_def Let_def split: prod.splits option.splits)

theorem ContractsRepository_path_witness:
  "trace (snd (ContractsRepository (demo_config\<lparr>solarEnv := ''staging''\<rparr>) demo_ext demo_process))
     = [Call_OpenContractsRepository ''solar.staging.json'']
   \<and> trace (snd (ContractsRepository
        (demo_config\<lparr>solarEnv := ''staging'', solarRepo := ''contracts.json''\<rparr>) demo_ext demo_process))
     = [Call_OpenContractsRepository ''contracts.json'']
   \<and> fst (ContractsRepository (demo_config\<lparr>solarEnv := ''staging''\<rparr>) demo_ext demo_process)
     = Inr (Some 0)"
  using ContractsRepository_path [of "demo_config\<lparr>solarEnv := ''staging''\<rparr>" demo_ext demo_process]
    ContractsRepository_path [of "demo_config\<lparr>solarEnv := ''staging'', solarRepo := ''contracts.json''\<rparr>"
      demo_ext demo_process]
  by (simp add: demo_config_def demo_process_def demo_ext_def solar0_def)

section \<open>Expansion of placeholders\<close>

lemma expand_segments_result:
  "expand_segments (expand_key ext p r) segs
     = (case find (\<lambda>key. \<not> snd (repo_Get ext (world p) r key)) (placeholders segs) of
          Some key \<Rightarrow> Inl (Panic (''Invalid address expansion: '' @ key))
        | None \<Rightarrow> Inr (substituted ext p r segs))"
proof (induction segs)
  case Nil
  show ?case by simp
next
  case (Cons seg segs)
  show ?case
  proof (cases seg)
    case (Text t)
    with Cons show ?thesis by (simp split: option.splits)
  next
    case (Placeholder key)
    with Cons show ?thesis
      by (cases "repo_Get ext (world p) r key") (simp add: expand_key_def split: option.splits)
  qed
qed

lemma demo_open:
  "ContractsRepository demo_config demo_ext demo_process
     = (Inr (Some 0), demo_process\<lparr>solar := solar0\<lparr>repo := Some 0, repoOnce := True\<rparr>, world := 1,
          trace := [Call_OpenContractsRepository ''solar.development.json'']\<rparr>)"
  by (simp add: ContractsRepository_def repoFilePath_def demo_config_def demo_ext_def
      demo_process_def solar0_def)

text \<open>
  C6: once the repository handle is there, \<open>ExpandJSONParams\<close> looks the placeholders up
  from left to right. The first identifier that \<open>repo.Get\<close> reports as not found ends the
  expansion in a panic whose error text carries that identifier; when every identifier is
  found, the result is the template with each placeholder replaced by the address of its
  contract rendered as a string.
\<close>

theorem ExpandJSONParams_placeholders:
  assumes "ContractsRepository cfg ext p = (Inr r, p1)"
  shows "ExpandJSONParams cfg ext jsonParams p
     = ((case find (\<lambda>key. \<not> snd (repo_Get ext (world p1) r key))
               (placeholders (scan (varstr_ident ext) jsonParams)) of
          Some key \<Rightarrow> Inl (Panic (''Invalid address expansion: '' @ key))
        | None \<Rightarrow> Inr (substituted ext p1 r (scan (varstr_ident ext) jsonParams))), p1)"
  using assms by (simp add: ExpandJSONParams_def varstr_Expand_def expand_segments_result)

theorem ExpandJSONParams_placeholders_witness:
  "ExpandJSONParams demo_config demo_ext ''addr=$Missing'' demo_process
     = (Inl (Panic ''Invalid address expansion: Missing''),
        demo_process\<lparr>solar := solar0\<lparr>repo := Some 0, repoOnce := True\<rparr>, world := 1,
          trace := [Call_OpenContractsRepository ''solar.development.json'']\<rparr>)
   \<and> ExpandJSONParams demo_config demo_ext ''to=$Token, x=[${Token}]'' demo_process
     = (Inr ''to=ABC, x=[ABC]'',
        demo_process\<lparr>solar := solar0\<lparr>repo := Some 0, repoOnce := True\<rparr>, world := 1,
          trace := [Call_OpenContractsRepository ''solar.development.json'']\<rparr>)"
  using ExpandJSONParams_placeholders [OF demo_open, of "''addr=$Missing''"]
    ExpandJSONParams_placeholders [OF demo_open, of "''to=$Token, x=[${Token}]''"]
  by (simp add: demo_ext_def demo_ident_def demo_process_def)

text \<open>
  C10: \<open>ExpandJSONParams\<close> calls \<open>ContractsRepository\<close> before it scans. Whatever the
  template is, a call that does not end in the exit of the accessor leaves the once-guard
  of the repository used; a call that finds the guard unused opens the repository file,
  and exits with the accessor's message when the open fails, and stores the handle
  otherwise.
\<close>

theorem ExpandJSONParams_opens_repository:
  assumes "contract_OpenContractsRepository ext (repoFilePath cfg) (world p) = ((r, err), w')"
  shows "(repoOnce (solar (snd (ExpandJSONParams cfg ext jsonParams p)))
          \<or> (\<exists>msg. fst (ExpandJSONParams cfg ext jsonParams p) = Inl (PrintfExit msg 1)))
   \<and> (\<not> repoOnce (solar p) \<longrightarrow>
        trace (snd (ExpandJSONParams cfg ext jsonParams p))
          = trace p @ [Call_OpenContractsRepository (repoFilePath cfg)]
        \<and> (case err of
             Some e \<Rightarrow>
               fst (ExpandJSONParams cfg ext jsonParams p)
                 = Inl (PrintfExit (''error opening contracts repo file '' @ repoFilePath cfg
                          @ '': '' @ e @ [CHR 0x0A]) 1)
           | None \<Rightarrow>
               repoOnce (solar (snd (ExpandJSONParams cfg ext jsonParams p)))
               \<and> repo (solar (snd (ExpandJSONParams cfg ext jsonParams p))) = r))"
  using assms
  by (cases err) (simp_all add: ExpandJSONParams_def ContractsRepository_def Let_def)

theorem ExpandJSONParams_opens_repository_witness:
  "trace (snd (ExpandJSONParams demo_config demo_ext ''no vars here'' demo_process))
     = [Call_OpenContractsRepository ''solar.development.json'']
   \<and> repoOnce (solar (snd (ExpandJSONParams demo_config demo_ext ''no vars here'' demo_process)))
   \<and> repo (solar (snd (ExpandJSONParams demo_config demo_ext ''no vars here'' demo_process)))
     = Some 0
   \<and> fst (ExpandJSONParams demo_config
        (demo_ext\<lparr>contract_OpenContractsRepository :=
           (\<lambda>path w. ((None, Some ''no such file''), w))\<rparr>) ''no vars here'' demo_process)
     = Inl (PrintfExit
          (''error opening contracts repo file solar.development.json: no such file'' @ [CHR 0x0A]) 1)"
proof -
  let ?bad = "demo_ext\<lparr>contract_OpenContractsRepository :=
           (\<lambda>path w. ((None, Some ''no such file''), w))\<rparr>"
  have fresh: "\<not> repoOnce (solar demo_process)" and none: "trace demo_process = []"
    by (simp_all add: demo_process_def solar0_def)
  have path: "repoFilePath demo_config = ''solar.development.json''"
    by (simp add: repoFilePath_def demo_config_def)
  have opened: "contract_OpenContractsRepository demo_ext (repoFilePath demo_config)
      (world demo_process) = ((Some 0, None), Suc 0)"
    by (simp add: demo_ext_def demo_process_def)
  have failed: "contract_OpenContractsRepository ?bad (repoFilePath demo_config)
      (world demo_process) = ((None, Some ''no such file''), world demo_process)"
    by simp
  from ExpandJSONParams_opens_repository [OF opened, of "''no vars here''"]
    ExpandJSONParams_opens_repository [OF failed, of "''no vars here''"] fresh none path
  show ?thesis by simp
qed

section \<open>The with-prefix toggle\<close>

text \<open>
  \<open>ConfigureBytesOutputFormat\<close> looks at the eth endpoint alone: it calls
  \<open>SetFormatBytesWithPrefix(true)\<close> when that endpoint is non-empty and does nothing
  otherwise.
\<close>

lemma ConfigureBytesOutputFormat_effect:
  "ConfigureBytesOutputFormat cfg p
     = (if ethRPC cfg \<noteq> []
        then p\<lparr>formatBytesWithPrefix := True,
               trace := trace p @ [Call_SetFormatBytesWithPrefix True]\<rparr>
        else p)"
  by (simp add: ConfigureBytesOutputFormat_def contract_SetFormatBytesWithPrefix_def)

text \<open>
  With at most one endpoint set, the toggle is enabled exactly when \<open>RPCPlatform\<close> selects
  \<open>RPCEthereum\<close>, and the process is left as it was otherwise.
\<close>

lemma ConfigureBytesOutputFormat_one_endpoint:
  assumes "sicashRPC cfg = [] \<or> ethRPC cfg = []"
  shows "(ConfigureBytesOutputFormat cfg p
            = p\<lparr>formatBytesWithPrefix := True,
                 trace := trace p @ [Call_SetFormatBytesWithPrefix True]\<rparr>
          \<and> RPCPlatform cfg = Inr RPCEthereum)
       \<or> (ConfigureBytesOutputFormat cfg p = p \<and> RPCPlatform cfg \<noteq> Inr RPCEthereum)"
  using assms
  by (auto simp add: ConfigureBytesOutputFormat_def contract_SetFormatBytesWithPrefix_def
      RPCPlatform_def)

text \<open>
  Whenever \<open>Deployer\<close> returns a deployer, the eth endpoint is non-empty exactly when the
  constructor it called last is \<open>eth.NewDeployer\<close>: the toggle follows the deployer that
  the code hands out, also with both endpoints set.
\<close>

lemma ConfigureBytesOutputFormat_follows_Deployer:
  assumes "fst (Deployer cfg ext p) = Inr d"
  shows "(ethRPC cfg \<noteq> []) = (last (trace (snd (Deployer cfg ext p))) = Call_eth_NewDeployer)"
  using assms
  by (auto simp add: Deployer_def Deployer_sicash_def Deployer_eth_def Deployer_checks_def Let_def
      split: prod.splits option.splits sum.splits if_splits)

text \<open>
  C7: the with-prefix rendering is to be enabled if and only if backend B is the selected
  platform, and left alone otherwise, so that addresses are rendered without the prefix.
  With both endpoints set the selected platform is backend A (\<open>RPCPlatform\<close> returns
  \<open>RPCSICash\<close>), yet \<open>ConfigureBytesOutputFormat\<close> calls
  \<open>SetFormatBytesWithPrefix(true)\<close>, and the address that \<open>ExpandJSONParams\<close>
  substitutes afterwards carries the prefix, which it does not carry without that call.
\<close>

theorem ConfigureBytesOutputFormat_both_endpoints:
  "RPCPlatform (demo_config\<lparr>sicashRPC := ''http://a:1'', ethRPC := ''http://b:2''\<rparr>)
     = Inr RPCSICash
   \<and> ConfigureBytesOutputFormat
       (demo_config\<lparr>sicashRPC := ''http://a:1'', ethRPC := ''http://b:2''\<rparr>) demo_process
     = demo_process\<lparr>formatBytesWithPrefix := True,
         trace := [Call_SetFormatBytesWithPrefix True]\<rparr>
   \<and> fst (ExpandJSONParams
        (demo_config\<lparr>sicashRPC := ''http://a:1'', ethRPC := ''http://b:2''\<rparr>) demo_ext ''$Token''
        (ConfigureBytesOutputFormat
           (demo_config\<lparr>sicashRPC := ''http://a:1'', ethRPC := ''http://b:2''\<rparr>) demo_process))
     = Inr ''0xABC''
   \<and> fst (ExpandJSONParams
        (demo_config\<lparr>sicashRPC := ''http://a:1'', ethRPC := ''http://b:2''\<rparr>) demo_ext ''$Token''
        demo_process)
     = Inr ''ABC''"
  by (simp add: RPCPlatform_def ConfigureBytesOutputFormat_def
      contract_SetFormatBytesWithPrefix_def ExpandJSONParams_def ContractsRepository_def
      repoFilePath_def varstr_Expand_def expand_key_def demo_config_def demo_ext_def
      demo_ident_def demo_process_def solar0_def)

section \<open>Compiler options\<close>

lemma strings_Split_nonempty: "strings_Split s sep \<noteq> []"
  by (induction s) (simp_all split: list.splits)

lemma strings_Split_no_sep: "sep \<notin> set s \<Longrightarrow> strings_Split s sep = [s]"
  by (induction s) auto

lemma strings_Split_sep:
  "sep \<notin> set a \<Longrightarrow> strings_Split (a @ sep # b) sep = a # strings_Split b sep"
  by (induction a) auto

lemma strings_Split_length: "length (strings_Split s sep) = Suc (count_list s sep)"
  by (induction s) (auto simp: strings_Split_nonempty split: list.splits)

text \<open>
  C8, as claimed: with the allow-paths setting empty, \<open>AllowPaths\<close> is the one-element
  list of the working directory. A working directory with a comma in its name is split
  like a list of paths, and when the working directory cannot be determined no options
  are returned.
\<close>

theorem SolcOptions_counterexample:
  "solcAllowPaths demo_config = []
   \<and> os_Getwd (demo_ext\<lparr>os_Getwd := (\<lambda>w. (''/home/a,b'', None))\<rparr>) 0 = (''/home/a,b'', None)
   \<and> SolcOptions demo_config (demo_ext\<lparr>os_Getwd := (\<lambda>w. (''/home/a,b'', None))\<rparr>) 0
       = Inr \<lparr>NoOptimize = False, AllowPaths = [''/home/a'', ''b'']\<rparr>
   \<and> SolcOptions demo_config
        (demo_ext\<lparr>os_Getwd := (\<lambda>w. ([], Some ''getwd: no such file or directory''))\<rparr>) 0
       = Inl ''solc options: getwd: no such file or directory''"
  by (simp add: SolcOptions_def errors_Wrap_def demo_config_def demo_ext_def)

text \<open>
  C8, amended: with a non-empty allow-paths setting \<open>SolcOptions\<close> returns options whose
  \<open>AllowPaths\<close> is the setting split at its commas; with an empty setting and a working
  directory without a comma, \<open>AllowPaths\<close> is the one-element list of the working
  directory; in both cases \<open>NoOptimize\<close> is the negation of the optimize flag. With an
  empty setting and a failing \<open>os.Getwd\<close>, it returns the error wrapped as
  \<open>solc options\<close> and no options.
\<close>

theorem SolcOptions_result:
  "(solcAllowPaths cfg \<noteq> [] \<longrightarrow>
      SolcOptions cfg ext w
        = Inr \<lparr>NoOptimize = \<not> solcOptimize cfg,
               AllowPaths = strings_Split (solcAllowPaths cfg) (CHR '','')\<rparr>)
   \<and> (\<forall>cwd. solcAllowPaths cfg = [] \<and> os_Getwd ext w = (cwd, None) \<and> CHR '','' \<notin> set cwd \<longrightarrow>
        SolcOptions cfg ext w = Inr \<lparr>NoOptimize = \<not> solcOptimize cfg, AllowPaths = [cwd]\<rparr>)
   \<and> (\<forall>cwd e. solcAllowPaths cfg = [] \<and> os_Getwd ext w = (cwd, Some e) \<longrightarrow>
        SolcOptions cfg ext w = Inl (''solc options: '' @ e))"
  by (simp add: SolcOptions_def errors_Wrap_def strings_Split_no_sep)

theorem SolcOptions_result_witness:
  "SolcOptions (demo_config\<lparr>solcAllowPaths := ''lib,/opt/contracts''\<rparr>) demo_ext 0
     = Inr \<lparr>NoOptimize = False, AllowPaths = [''lib'', ''/opt/contracts'']\<rparr>
   \<and> SolcOptions demo_config demo_ext 0
     = Inr \<lparr>NoOptimize = False, AllowPaths = [''/home/solar'']\<rparr>
   \<and> SolcOptions (demo_config\<lparr>solcOptimize := False\<rparr>)
        (demo_ext\<lparr>os_Getwd := (\<lambda>w. ([], Some ''getwd: no such file or directory''))\<rparr>) 0
     = Inl ''solc options: getwd: no such file or directory''"
  using SolcOptions_result [of "demo_config\<lparr>solcAllowPaths := ''lib,/opt/contracts''\<rparr>" demo_ext 0]
    SolcOptions_result [of demo_config demo_ext 0]
    SolcOptions_result [of "demo_config\<lparr>solcOptimize := False\<rparr>"
      "demo_ext\<lparr>os_Getwd := (\<lambda>w. ([], Some ''getwd: no such file or directory''))\<rparr>" 0]
  by (simp add: demo_config_def demo_ext_def)

section \<open>The event reporter\<close>

text \<open>
  C9, as claimed: the inbound channel of the reporter is unbounded, so that a send on it
  never blocks. The channel is made without a capacity, and a send on it while no
  receiver is waiting blocks.
\<close>

theorem Reporter_channel_counterexample:
  "fst (Reporter demo_process) = Some \<lparr>in_chan = \<lparr>cap = 0, buffered = 0\<rparr>\<rparr>
   \<and> fst (chan_send \<lparr>cap = 0, buffered = 0\<rparr> False) = Blocked"
  by (simp add: Reporter_def make_chan_def chan_send_def demo_process_def solar0_def)

text \<open>
  C9, amended: the inbound channel that \<open>Reporter\<close> creates on its first call is
  unbuffered (capacity 0): a send on it proceeds only when the receiver is already
  waiting and blocks the sender otherwise, leaving the channel as it was, so that this
  holds after any number of sends. Later calls of \<open>Reporter\<close> return the same reporter.
\<close>

theorem Reporter_channel_unbuffered:
  assumes "\<not> reporterOnce (solar p)"
  shows "fst (Reporter p) = Some \<lparr>in_chan = make_chan 0\<rparr>
   \<and> cap (make_chan 0) = 0
   \<and> chan_send (make_chan 0) receiver_waiting
       = (if receiver_waiting then Sent else Blocked, make_chan 0)
   \<and> Reporter (snd (Reporter p)) = (Some \<lparr>in_chan = make_chan 0\<rparr>, snd (Reporter p))"
  using assms by (simp add: Reporter_def make_chan_def chan_send_def Let_def)

theorem Reporter_channel_unbuffered_witness:
  "fst (Reporter demo_process) = Some \<lparr>in_chan = make_chan 0\<rparr>
   \<and> chan_send (make_chan 0) False = (Blocked, make_chan 0)
   \<and> chan_send (make_chan 0) True = (Sent, make_chan 0)"
proof -
  have fresh: "\<not> reporterOnce (solar demo_process)"
    by (simp add: demo_process_def solar0_def)
  from Reporter_channel_unbuffered [OF fresh, of False]
    Reporter_channel_unbuffered [OF fresh, of True]
  show ?thesis by simp
qed

section \<open>The deployer\<close>

text \<open>
  With the eth endpoint set, the deployer that \<open>Deployer\<close> returns is one that
  \<open>eth.NewDeployer\<close> returned, and that constructor is the last collaborator called,
  whether the sicash endpoint is set or not.
\<close>

lemma Deployer_eth_when_set:
  assumes "ethRPC cfg \<noteq> []" and "fst (Deployer cfg ext p) = Inr d"
  shows "(\<exists>u r w. fst (eth_NewDeployer ext u r w) = (d, None))
    \<and> last (trace (snd (Deployer cfg ext p))) = Call_eth_NewDeployer"
  using assms
  by (auto simp add: Deployer_def Deployer_sicash_def Deployer_eth_def Deployer_checks_def Let_def
      split: prod.splits option.splits sum.splits if_splits) (metis fst_conv)+

text \<open>
  \<open>Deployer\<close> neither reads nor writes the fields \<open>depoyer\<close> and \<open>deployerOnce\<close>, and
  with only the sicash endpoint set every call that returns has called
  \<open>sicash.NewDeployer\<close>.
\<close>

lemma ContractsRepository_keeps_deployer_fields:
  "depoyer (solar (snd (ContractsRepository cfg ext p))) = depoyer (solar p)
   \<and> deployerOnce (solar (snd (ContractsRepository cfg ext p))) = deployerOnce (solar p)"
  by (simp add: ContractsRepository_def Let_def split: prod.splits option.splits)

lemma Deployer_keeps_deployer_fields:
  "depoyer (solar (snd (Deployer cfg ext p))) = depoyer (solar p)
   \<and> deployerOnce (solar (snd (Deployer cfg ext p))) = deployerOnce (solar p)"
  using ContractsRepository_keeps_deployer_fields [of cfg ext p]
  by (auto simp add: Deployer_def Deployer_sicash_def Deployer_eth_def Let_def ContractsRepository_def
      split: prod.splits option.splits sum.splits if_splits)

lemma Deployer_constructs_on_every_call:
  assumes "sicashRPC cfg \<noteq> []" and "ethRPC cfg = []" and "fst (Deployer cfg ext p) = Inr d"
  shows "\<exists>opened. trace (snd (Deployer cfg ext p))
           = trace p @ opened @ [Call_sicash_NewDeployer (sicashSenderAddress cfg)]"
  using assms
  by (auto simp add: Deployer_def Deployer_sicash_def Deployer_eth_def Deployer_checks_def Let_def
      ContractsRepository_def
      split: prod.splits option.splits sum.splits if_splits)

text \<open>
  C1: with both endpoints set, the specification has \<open>Deployer\<close> construct and return
  the sicash deployer, as \<open>RPCPlatform\<close> selects \<open>RPCSICash\<close>. On such a configuration
  the code constructs the sicash deployer, then the eth deployer, and returns the eth
  deployer.
\<close>

theorem Deployer_both_endpoints_returns_eth:
  "Deployer (demo_config\<lparr>sicashRPC := ''http://a:1'', ethRPC := ''http://b:2''\<rparr>)
     demo_ext demo_process
   = (Inr (Some (EthDeployer 2)),
      demo_process\<lparr>solar := solar0\<lparr>repo := Some 0, repoOnce := True\<rparr>, world := 3,
        trace := [Call_OpenContractsRepository ''solar.development.json'',
                  Call_sicash_NewDeployer [], Call_eth_NewDeployer]\<rparr>)"
  by (simp add: Deployer_def Deployer_sicash_def Deployer_eth_def Deployer_checks_def
      ContractsRepository_def repoFilePath_def demo_config_def demo_ext_def demo_process_def
      solar0_def)

text \<open>
  C2: the specification has \<open>Deployer\<close>, called several times, construct one deployer
  and return it every time. Called twice with the sicash endpoint set, the code calls
  \<open>sicash.NewDeployer\<close> twice and returns two different deployers.
\<close>

theorem Deployer_twice_constructs_twice:
  "fst (Deployer (demo_config\<lparr>sicashRPC := ''http://a:1''\<rparr>) demo_ext demo_process)
     = Inr (Some (SICashDeployer 1))
   \<and> Deployer (demo_config\<lparr>sicashRPC := ''http://a:1''\<rparr>) demo_ext
       (snd (Deployer (demo_config\<lparr>sicashRPC := ''http://a:1''\<rparr>) demo_ext demo_process))
     = (Inr (Some (SICashDeployer 2)),
        demo_process\<lparr>solar := solar0\<lparr>repo := Some 0, repoOnce := True\<rparr>, world := 3,
          trace := [Call_OpenContractsRepository ''solar.development.json'',
                    Call_sicash_NewDeployer [], Call_sicash_NewDeployer []]\<rparr>)"
  by (simp add: Deployer_def Deployer_sicash_def Deployer_eth_def Deployer_checks_def
      ContractsRepository_def repoFilePath_def demo_config_def demo_ext_def demo_process_def
      solar0_def)

end
